theory Spec2Isabelle
  imports Main
begin

section \<open>The command-line front end of whisper-ctranslate2\<close>

text \<open>
  A shallow embedding of \<^verbatim>\<open>whisper_ctranslate2.py\<close>: the scalar coercers
  (\<^verbatim>\<open>optional_int\<close>, \<^verbatim>\<open>str2bool\<close>), the conversion of the
  \<^verbatim>\<open>--vad_filter\<close> flag, and \<^verbatim>\<open>main\<close> from the parsed argument
  dictionary to the calls of the inference engine and of the output writer.

  Conventions of the embedding.
  \<^item> A Python \<^verbatim>\<open>str\<close> is a \<open>string\<close>; only ASCII input is modelled (Python's
    \<^verbatim>\<open>int\<close> also accepts non-ASCII decimal digits and white space). Integers are
    unbounded; the limit that recent interpreters put on the number of digits that
    \<^verbatim>\<open>int\<close> converts (4300 unless configured) is not modelled.
  \<^item> A Python \<^verbatim>\<open>float\<close> is a value of the type parameter \<open>'f\<close>. The file does
    no arithmetic on floats of its own: it passes them on, and it calls the numpy
    library once, which is a parameter of the model.
  \<^item> \<^verbatim>\<open>None\<close> is \<open>None\<close> of an option type.
  \<^item> A raised exception is \<open>Inl\<close> of a sum type, a returned value is \<open>Inr\<close>.
  \<^item> Output and the calls of the external collaborators are recorded, in order, in a
    list of events.
\<close>

subsection \<open>Exceptions\<close>

datatype error =
    InvalidIntLiteral string
    \<comment> \<open>\<^verbatim>\<open>ValueError: invalid literal for int() with base 10: <the token>\<close>\<close>
  | ExpectedOneOf "string set" string
    \<comment> \<open>\<^verbatim>\<open>ValueError(f"Expected one of {set(str2val.keys())}, got {string}")\<close>\<close>
  | RuntimeError string
    \<comment> \<open>\<^verbatim>\<open>raise RuntimeError(message)\<close>\<close>
  | UnsupportedFeatureError
    \<comment> \<open>\<^verbatim>\<open>Live.force_not_available_exception()\<close>\<close>
  | ExternalError string
    \<comment> \<open>an exception raised inside an external collaborator\<close>

subsection \<open>Python's \<^verbatim>\<open>int(str)\<close>, base 10\<close>

text \<open>
  \<^verbatim>\<open>int(s)\<close> skips leading white space, reads an optional sign, then decimal digits in
  which single underscores may separate two digits, skips trailing white space, and
  must then be at the end of the string. The model agrees with the interpreter on the
  tokens of ASCII characters that have at most 4300 digits.
\<close>

definition is_space :: "char \<Rightarrow> bool" where
  "is_space c = (c \<in> set [CHR 0x09, CHR 0x0A, CHR 0x0B, CHR 0x0C, CHR 0x0D, CHR 0x20])"

definition is_digit :: "char \<Rightarrow> bool" where
  "is_digit c = (48 \<le> (of_char c :: nat) \<and> (of_char c :: nat) \<le> 57)"

definition digit_value :: "char \<Rightarrow> nat" where
  "digit_value c = of_char c - 48"

fun scan_digits :: "nat \<Rightarrow> string \<Rightarrow> (nat \<times> string) option" where
  "scan_digits acc [] = Some (acc, [])"
| "scan_digits acc (c # cs) =
     (if is_digit c then scan_digits (10 * acc + digit_value c) cs
      else if c = CHR ''_'' then
        (case cs of
           [] \<Rightarrow> None
         | d # ds \<Rightarrow> if is_digit d then scan_digits (10 * acc + digit_value d) ds else None)
      else Some (acc, c # cs))"

definition strip_sign :: "string \<Rightarrow> bool \<times> string" where
  "strip_sign t =
     (case t of
        [] \<Rightarrow> (False, t)
      | c # r \<Rightarrow> if c = CHR ''-'' then (True, r) else if c = CHR ''+'' then (False, r) else (False, t))"

definition int_literal :: "string \<Rightarrow> int option" where
  "int_literal s =
     (case strip_sign (dropWhile is_space s) of
        (neg, u) \<Rightarrow>
          (case u of
             [] \<Rightarrow> None
           | d # ds \<Rightarrow>
               if is_digit d then
                 (case scan_digits (digit_value d) ds of
                    None \<Rightarrow> None
                  | Some (n, rest) \<Rightarrow>
                      if dropWhile is_space rest = [] then Some (if neg then - int n else int n)
                      else None)
               else None))"

definition py_int :: "string \<Rightarrow> error + int" where
  "py_int s = (case int_literal s of None \<Rightarrow> Inl (InvalidIntLiteral s) | Some n \<Rightarrow> Inr n)"









subsection \<open>The scalar coercers\<close>


definition str2val :: "(string \<times> bool) list" where
  "str2val = [(''True'', True), (''False'', False)]"

definition str2bool :: "string \<Rightarrow> error + bool" where
  "str2bool string =
     (case map_of str2val string of
        Some b \<Rightarrow> Inr b
      | None \<Rightarrow> Inl (ExpectedOneOf (set (map fst str2val)) string))"

text \<open>
  \<^verbatim>\<open>--vad_filter\<close> is declared with \<^verbatim>\<open>type=bool\<close>: the token is converted by
  Python's \<^verbatim>\<open>bool(str)\<close>, which is true for every string but the empty one and
  never raises. The flag's default, when it is not given, is \<^verbatim>\<open>False\<close>.
\<close>

definition py_bool :: "string \<Rightarrow> bool" where
  "py_bool s = (s \<noteq> [])"

definition vad_filter_arg :: "string option \<Rightarrow> error + bool" where
  "vad_filter_arg token = (case token of None \<Rightarrow> Inr False | Some s \<Rightarrow> Inr (py_bool s))"

text \<open>The other boolean flags are declared with \<^verbatim>\<open>type=str2bool\<close>.\<close>

definition str2bool_arg :: "bool \<Rightarrow> string option \<Rightarrow> error + bool" where
  "str2bool_arg dflt token = (case token of None \<Rightarrow> Inr dflt | Some s \<Rightarrow> str2bool s)"

subsection \<open>The list of suppressed tokens\<close>

text \<open>\<^verbatim>\<open>s.split(",")\<close>: the pieces between the commas, empty pieces included.\<close>

fun str_split :: "char \<Rightarrow> string \<Rightarrow> string list" where
  "str_split sep [] = [[]]"
| "str_split sep (c # cs) =
     (if c = sep then [] # str_split sep cs
      else (case str_split sep cs of [] \<Rightarrow> [[c]] | w # ws \<Rightarrow> (c # w) # ws))"

text \<open>\<^verbatim>\<open>[int(t) for t in tokens]\<close>: the first token that fails raises.\<close>

fun int_list :: "string list \<Rightarrow> error + int list" where
  "int_list [] = Inr []"
| "int_list (t # ts) =
     (case py_int t of
        Inl e \<Rightarrow> Inl e
      | Inr n \<Rightarrow> (case int_list ts of Inl e \<Rightarrow> Inl e | Inr ns \<Rightarrow> Inr (n # ns)))"

definition parse_suppress_tokens :: "string \<Rightarrow> error + int list" where
  "parse_suppress_tokens suppress_tokens = int_list (str_split CHR '','' suppress_tokens)"

subsection \<open>The argument dictionary and the options\<close>

text \<open>
  \<^verbatim>\<open>Union[int, List[int]]\<close>: \<^verbatim>\<open>--device_index\<close> has \<^verbatim>\<open>nargs="*"\<close> and the
  default \<^verbatim>\<open>0\<close>.
\<close>

datatype device_index = Single int | Several "int list"

text \<open>
  The dictionary returned by \<^verbatim>\<open>read_command_line\<close>, one field per key, after
  argparse has applied the declared types.
\<close>

record 'f args =
  arg_audio :: "string list"
  arg_model :: string
  arg_model_dir :: "string option"
  arg_output_dir :: string
  arg_output_format :: string
  arg_verbose :: bool
  arg_task :: string
  arg_language :: "string option"
  arg_threads :: "int option"
  arg_temperature :: 'f
  arg_temperature_increment_on_fallback :: "'f option"
  arg_best_of :: "int option"
  arg_beam_size :: "int option"
  arg_patience :: 'f
  arg_length_penalty :: 'f
  arg_suppress_tokens :: string
  arg_initial_prompt :: "string option"
  arg_condition_on_previous_text :: bool
  arg_compression_ratio_threshold :: "'f option"
  arg_logprob_threshold :: "'f option"
  arg_no_speech_threshold :: "'f option"
  arg_word_timestamps :: bool
  arg_prepend_punctuations :: string
  arg_append_punctuations :: string
  arg_device :: string
  arg_vad_filter :: bool
  arg_vad_threshold :: "'f option"
  arg_vad_min_speech_duration_ms :: "int option"
  arg_vad_max_speech_duration_s :: "int option"
  arg_vad_min_silence_duration_ms :: "int option"
  arg_device_index :: device_index
  arg_compute_type :: string
  arg_model_directory :: "string option"
  arg_print_colors :: bool
  arg_live_transcribe :: bool

text \<open>
  \<^verbatim>\<open>TranscriptionOptions\<close> is declared in \<^verbatim>\<open>transcribe.py\<close>; its fields are
  the keywords of the constructor call in \<^verbatim>\<open>main\<close>.
\<close>

record 'f TranscriptionOptions =
  beam_size :: "int option"
  best_of :: "int option"
  patience :: 'f
  length_penalty :: 'f
  log_prob_threshold :: "'f option"
  no_speech_threshold :: "'f option"
  compression_ratio_threshold :: "'f option"
  condition_on_previous_text :: bool
  temperature :: "'f list"
  initial_prompt :: "string option"
  suppress_tokens :: "int list"
  word_timestamps :: bool
  prepend_punctuations :: string
  append_punctuations :: string
  print_colors :: bool
  vad_filter :: bool
  vad_threshold :: "'f option"
  vad_min_speech_duration_ms :: "int option"
  vad_max_speech_duration_s :: "int option"
  vad_min_silence_duration_ms :: "int option"

text \<open>
  The arguments that \<^verbatim>\<open>Live(...)\<close> and \<^verbatim>\<open>Transcribe().inference(...)\<close> have in
  common, in the order of the call.
\<close>

record 'f engine_args =
  call_model_dir :: string
  call_task :: string
  call_language :: "string option"
  call_threads :: "int option"
  call_device :: string
  call_device_index :: device_index
  call_compute_type :: string
  call_verbose :: bool
  call_options :: "'f TranscriptionOptions"

subsection \<open>Events and external collaborators\<close>

text \<open>
  What \<^verbatim>\<open>main\<close> does to the outside, in the order it does it. An event of a call is
  recorded when the call is made, whether the call returns or raises.
\<close>

datatype ('f, 'r) event =
    MakeDirs string
    \<comment> \<open>\<^verbatim>\<open>os.makedirs(output_dir, exist_ok=True)\<close>\<close>
  | Warn string
    \<comment> \<open>\<^verbatim>\<open>warnings.warn(message)\<close>\<close>
  | Print string
    \<comment> \<open>\<^verbatim>\<open>print(message)\<close>\<close>
  | StderrWrite string
    \<comment> \<open>\<^verbatim>\<open>sys.stderr.write(message)\<close>\<close>
  | LiveInference "'f engine_args"
    \<comment> \<open>\<^verbatim>\<open>Live(...).inference()\<close>\<close>
  | TranscribeInference string "'f engine_args" bool
    \<comment> \<open>\<^verbatim>\<open>Transcribe().inference(audio_path, ..., verbose, live, options)\<close>\<close>
  | WriterCall string string 'r string
    \<comment> \<open>\<^verbatim>\<open>get_writer(output_format, output_dir)(result, audio_path)\<close>\<close>

text \<open>
  The modules \<^verbatim>\<open>languages\<close>, \<^verbatim>\<open>live\<close>, \<^verbatim>\<open>transcribe\<close> and
  \<^verbatim>\<open>writers\<close>, the file system and the numpy library are parameters of the model.
  Each call is a function of its arguments that returns or raises. \<open>np_arange\<close> is
  \<^verbatim>\<open>np.arange(start, stop, step)\<close> and \<open>ladder_stop\<close> is the float that
  \<^verbatim>\<open>1.0 + 1e-6\<close> evaluates to.
\<close>

record ('f, 'r) env =
  np_arange :: "'f \<Rightarrow> 'f \<Rightarrow> 'f \<Rightarrow> error + 'f list"
  ladder_stop :: 'f
  makedirs :: "string \<Rightarrow> error + unit"
  from_language_to_iso_code :: "string option \<Rightarrow> error + string option"
  path_exists :: "string \<Rightarrow> bool"
  live_is_available :: bool
  live_inference :: "'f engine_args \<Rightarrow> error + unit"
  transcribe_inference :: "string \<Rightarrow> 'f engine_args \<Rightarrow> bool \<Rightarrow> error + 'r"
  writer :: "string \<Rightarrow> string \<Rightarrow> 'r \<Rightarrow> string \<Rightarrow> error + unit"

text \<open>A run: the events so far, and the exception raised or the value computed.\<close>

type_synonym ('f, 'r, 'a) run = "('f, 'r) event list \<times> (error + 'a)"

definition lift :: "error + 'a \<Rightarrow> ('f, 'r, 'a) run" where
  "lift x = ([], x)"

definition emit :: "('f, 'r) event list \<Rightarrow> ('f, 'r, unit) run" where
  "emit evs = (evs, Inr ())"

definition bind_run ::
  "('f, 'r, 'a) run \<Rightarrow> ('a \<Rightarrow> ('f, 'r, 'b) run) \<Rightarrow> ('f, 'r, 'b) run" where
  "bind_run m f =
     (case m of
        (evs, Inl e) \<Rightarrow> (evs, Inl e)
      | (evs, Inr x) \<Rightarrow> (case f x of (evs', r) \<Rightarrow> (evs @ evs', r)))"

subsection \<open>The temperature ladder\<close>

text \<open>Lines 317 to 321.\<close>

definition temperature_ladder :: "('f, 'r) env \<Rightarrow> 'f \<Rightarrow> 'f option \<Rightarrow> error + 'f list" where
  "temperature_ladder env t0 increment =
     (case increment of
        Some inc \<Rightarrow> np_arange env t0 (ladder_stop env) inc
      | None \<Rightarrow> Inr [t0])"

subsection \<open>The correction of the language for English-only models\<close>

text \<open>Python's truth value of a string or \<^verbatim>\<open>None\<close>.\<close>

definition truthy :: "string option \<Rightarrow> bool" where
  "truthy s = (case s of None \<Rightarrow> False | Some t \<Rightarrow> t \<noteq> [])"

definition endswith :: "string \<Rightarrow> string \<Rightarrow> bool" where
  "endswith s suffix = (length suffix \<le> length s \<and> drop (length s - length suffix) s = suffix)"

definition english :: "string option set" where
  "english = {Some ''en'', Some ''English''}"

definition english_only_warning :: "string \<Rightarrow> string \<Rightarrow> string" where
  "english_only_warning model language =
     model @ '' is an English-only model but receipted '' @ [CHR 0x27] @ language @ [CHR 0x27]
       @ ''; using English instead.''"

text \<open>
  Lines 325 to 334. The result is the messages given to \<^verbatim>\<open>warnings.warn\<close> and the
  language after the correction.
\<close>

definition correct_language ::
  "string option \<Rightarrow> string \<Rightarrow> string option \<Rightarrow> string list \<times> string option" where
  "correct_language model_directory model language =
     (if \<not> truthy model_directory \<and> endswith model ''.en'' \<and> language \<notin> english then
        (case language of
           Some l \<Rightarrow> ([english_only_warning model l], Some ''en'')
         | None \<Rightarrow> ([], Some ''en''))
      else ([], language))"

text \<open>A step that warns and returns.\<close>

definition warn :: "string list \<times> 'a \<Rightarrow> ('f, 'r, 'a) run" where
  "warn m = (map Warn (fst m), Inr (snd m))"

subsection \<open>\<^verbatim>\<open>main\<close>: building the options\<close>

text \<open>The constructor call of lines 337 to 358, given the ladder and the parsed tokens.\<close>

definition make_options :: "'f args \<Rightarrow> 'f list \<Rightarrow> int list \<Rightarrow> 'f TranscriptionOptions" where
  "make_options a ladder tokens =
     \<lparr> beam_size = arg_beam_size a,
       best_of = arg_best_of a,
       patience = arg_patience a,
       length_penalty = arg_length_penalty a,
       log_prob_threshold = arg_logprob_threshold a,
       no_speech_threshold = arg_no_speech_threshold a,
       compression_ratio_threshold = arg_compression_ratio_threshold a,
       condition_on_previous_text = arg_condition_on_previous_text a,
       temperature = ladder,
       initial_prompt = arg_initial_prompt a,
       suppress_tokens = tokens,
       word_timestamps = arg_word_timestamps a,
       prepend_punctuations = arg_prepend_punctuations a,
       append_punctuations = arg_append_punctuations a,
       print_colors = arg_print_colors a,
       vad_filter = arg_vad_filter a,
       vad_threshold = arg_vad_threshold a,
       vad_min_speech_duration_ms = arg_vad_min_speech_duration_ms a,
       vad_max_speech_duration_s = arg_vad_max_speech_duration_s a,
       vad_min_silence_duration_ms = arg_vad_min_silence_duration_ms a \<rparr>"

text \<open>Lines 317 to 358: the ladder, the language, the suppressed tokens, the options.\<close>

definition build_options ::
  "('f, 'r) env \<Rightarrow> 'f args \<Rightarrow> ('f, 'r, string option \<times> 'f TranscriptionOptions) run" where
  "build_options env a =
     bind_run (lift (temperature_ladder env (arg_temperature a) (arg_temperature_increment_on_fallback a)))
       (\<lambda>ladder.
     bind_run (lift (from_language_to_iso_code env (arg_language a)))
       (\<lambda>iso_language.
     bind_run (warn (correct_language (arg_model_directory a) (arg_model a) iso_language))
       (\<lambda>language.
     bind_run (lift (parse_suppress_tokens (arg_suppress_tokens a)))
       (\<lambda>tokens.
     lift (Inr (language, make_options a ladder tokens))))))"

subsection \<open>\<^verbatim>\<open>main\<close>: the checks before the engine\<close>

text \<open>\<^verbatim>\<open>os.path.join\<close> of two components, on POSIX.\<close>

definition path_join :: "string \<Rightarrow> string \<Rightarrow> string" where
  "path_join a b =
     (if take 1 b = ''/'' then b
      else if a = [] \<or> last a = CHR ''/'' then a @ b
      else a @ ''/'' @ b)"

definition detecting_language_message :: string where
  "detecting_language_message =
     ''Detecting language using up to the first 30 seconds. Use '' @ [CHR 0x60] @ ''--language''
       @ [CHR 0x60] @ '' to specify the language''"

definition print_colors_message :: string where
  "print_colors_message =
     ''Print colors requires word-level time stamps. Generated files in output directory will have word-level timestamps''"

definition model_file_missing :: "string \<Rightarrow> string" where
  "model_file_missing model_filename =
     ''Model file '' @ [CHR 0x27] @ model_filename @ [CHR 0x27] @ '' does not exists''"

text \<open>
  Lines 360 to 382. The result is \<^verbatim>\<open>model_dir\<close>.

  Modelled from the spec: \<^verbatim>\<open>Live.force_not_available_exception\<close> is in
  \<^verbatim>\<open>live.py\<close>, not in this file; the specification says that an unavailable live
  mode is a fatal \<^verbatim>\<open>UnsupportedFeatureError\<close> raised before any engine invocation.
\<close>

definition check_options ::
  "('f, 'r) env \<Rightarrow> 'f args \<Rightarrow> string option \<Rightarrow> 'f TranscriptionOptions
     \<Rightarrow> ('f, 'r, string) run" where
  "check_options env a language options =
     (if \<not> arg_verbose a \<and> print_colors options then
        lift (Inl (RuntimeError ''You cannot disable verbose and enable print colors''))
      else if arg_live_transcribe a \<and> \<not> live_is_available env then
        lift (Inl UnsupportedFeatureError)
      else
        bind_run (emit
          ((if arg_verbose a \<and> \<not> truthy language then [Print detecting_language_message] else [])
           @ (if print_colors options \<and> arg_output_dir a \<noteq> [] \<and> \<not> word_timestamps options
              then [Print print_colors_message] else [])))
          (\<lambda>_.
        if truthy (arg_model_directory a) then
          (case arg_model_directory a of
             None \<Rightarrow> lift (Inr (arg_model a))
           | Some model_directory \<Rightarrow>
               if \<not> path_exists env (path_join model_directory ''model.bin'') then
                 lift (Inl (RuntimeError (model_file_missing (path_join model_directory ''model.bin''))))
               else lift (Inr model_directory))
        else lift (Inr (arg_model a))))"

subsection \<open>\<^verbatim>\<open>main\<close>: live mode and batch mode\<close>

definition no_audio_message :: string where
  "no_audio_message = ''You need to specify one or more audio files'' @ [CHR 0x0A]"

text \<open>The loop over the audio files, lines 403 to 418.\<close>

fun batch ::
  "('f, 'r) env \<Rightarrow> string \<Rightarrow> string \<Rightarrow> 'f engine_args \<Rightarrow> string list \<Rightarrow> ('f, 'r, unit) run" where
  "batch env output_format output_dir call [] = ([], Inr ())"
| "batch env output_format output_dir call (audio_path # rest) =
     (case transcribe_inference env audio_path call False of
        Inl e \<Rightarrow> ([TranscribeInference audio_path call False], Inl e)
      | Inr result \<Rightarrow>
          (case writer env output_format output_dir result audio_path of
             Inl e \<Rightarrow>
               ([TranscribeInference audio_path call False,
                 WriterCall output_format output_dir result audio_path], Inl e)
           | Inr _ \<Rightarrow>
               (case batch env output_format output_dir call rest of
                  (evs, r) \<Rightarrow>
                    (TranscribeInference audio_path call False
                       # WriterCall output_format output_dir result audio_path # evs, r))))"

text \<open>The arguments of the engine call.\<close>

definition make_call ::
  "'f args \<Rightarrow> string option \<Rightarrow> 'f TranscriptionOptions \<Rightarrow> string \<Rightarrow> 'f engine_args" where
  "make_call a language options model_dir =
     \<lparr> call_model_dir = model_dir,
       call_task = arg_task a,
       call_language = language,
       call_threads = arg_threads a,
       call_device = arg_device a,
       call_device_index = arg_device_index a,
       call_compute_type = arg_compute_type a,
       call_verbose = arg_verbose a,
       call_options = options \<rparr>"

text \<open>Lines 384 to 418.\<close>

definition dispatch ::
  "('f, 'r) env \<Rightarrow> 'f args \<Rightarrow> string option \<Rightarrow> 'f TranscriptionOptions \<Rightarrow> string
     \<Rightarrow> ('f, 'r, unit) run" where
  "dispatch env a language options model_dir =
     (if arg_live_transcribe a then
        ([LiveInference (make_call a language options model_dir)],
         live_inference env (make_call a language options model_dir))
      else if length (arg_audio a) = 0 then emit [StderrWrite no_audio_message]
      else batch env (arg_output_format a) (arg_output_dir a)
             (make_call a language options model_dir) (arg_audio a))"

text \<open>\<^verbatim>\<open>main\<close>, from the parsed arguments on.\<close>

definition main :: "('f, 'r) env \<Rightarrow> 'f args \<Rightarrow> ('f, 'r, unit) run" where
  "main env a =
     bind_run ([MakeDirs (arg_output_dir a)], makedirs env (arg_output_dir a))
       (\<lambda>_.
     bind_run (build_options env a)
       (\<lambda>(language, options).
     bind_run (check_options env a language options)
       (\<lambda>model_dir.
     dispatch env a language options model_dir)))"

text \<open>The calls of the inference engine and of the output writer among the events.\<close>

fun is_engine_call :: "('f, 'r) event \<Rightarrow> bool" where
  "is_engine_call (LiveInference call) = True"
| "is_engine_call (TranscribeInference audio_path call live) = True"
| "is_engine_call _ = False"

fun is_writer_call :: "('f, 'r) event \<Rightarrow> bool" where
  "is_writer_call (WriterCall output_format output_dir result audio_path) = True"
| "is_writer_call _ = False"

text \<open>The language that an engine call receives.\<close>

fun engine_language :: "('f, 'r) event \<Rightarrow> string option option" where
  "engine_language (LiveInference call) = Some (call_language call)"
| "engine_language (TranscribeInference audio_path call live) = Some (call_language call)"
| "engine_language _ = None"

text \<open>An event that is neither a call of the engine nor a call of the writer.\<close>

definition quiet :: "('f, 'r) event \<Rightarrow> bool" where
  "quiet ev = (\<not> is_engine_call ev \<and> \<not> is_writer_call ev)"

text \<open>An event that, if it is a call of the engine, passes a language of the set
  \<^verbatim>\<open>{"en", "English"}\<close>.\<close>

definition english_call :: "('f, 'r) event \<Rightarrow> bool" where
  "english_call ev = (case engine_language ev of None \<Rightarrow> True | Some l \<Rightarrow> l \<in> english)"

text \<open>The two events of one audio file in batch mode, when the engine returns.\<close>

definition file_events ::
  "('f, 'r) env \<Rightarrow> string \<Rightarrow> string \<Rightarrow> 'f engine_args \<Rightarrow> string \<Rightarrow> ('f, 'r) event list" where
  "file_events env output_format output_dir call audio_path =
     [TranscribeInference audio_path call False,
      WriterCall output_format output_dir
        (projr (transcribe_inference env audio_path call False)) audio_path]"

subsection \<open>Concrete inputs\<close>

text \<open>
  In the concrete inputs a float is the text that Python prints for it.

  The defaults that \<^verbatim>\<open>read_command_line\<close> declares; the two defaults with
  characters beyond ASCII are given as their UTF-8 bytes.
\<close>

definition default_args :: "string args" where
  "default_args =
     \<lparr> arg_audio = [],
       arg_model = ''small'',
       arg_model_dir = None,
       arg_output_dir = ''.'',
       arg_output_format = ''all'',
       arg_verbose = True,
       arg_task = ''transcribe'',
       arg_language = None,
       arg_threads = Some 0,
       arg_temperature = ''0'',
       arg_temperature_increment_on_fallback = Some ''0.2'',
       arg_best_of = Some 5,
       arg_beam_size = Some 5,
       arg_patience = ''1.0'',
       arg_length_penalty = ''1.0'',
       arg_suppress_tokens = ''-1'',
       arg_initial_prompt = None,
       arg_condition_on_previous_text = True,
       arg_compression_ratio_threshold = Some ''2.4'',
       arg_logprob_threshold = Some ''-1.0'',
       arg_no_speech_threshold = Some ''0.6'',
       arg_word_timestamps = False,
       arg_prepend_punctuations =
         [CHR 0x22, CHR 0x27, CHR 0xE2, CHR 0x80, CHR 0x9C, CHR 0xC2, CHR 0xBF, CHR 0x28,
          CHR 0x5B, CHR 0x7B, CHR 0x2D],
       arg_append_punctuations =
         [CHR 0x22, CHR 0x27, CHR 0x2E, CHR 0xE3, CHR 0x80, CHR 0x82, CHR 0x2C, CHR 0xEF,
          CHR 0xBC, CHR 0x8C, CHR 0x21, CHR 0xEF, CHR 0xBC, CHR 0x81, CHR 0x3F, CHR 0xEF,
          CHR 0xBC, CHR 0x9F, CHR 0x3A, CHR 0xEF, CHR 0xBC, CHR 0x9A, CHR 0xE2, CHR 0x80,
          CHR 0x9D, CHR 0x29, CHR 0x5D, CHR 0x7D, CHR 0xE3, CHR 0x80, CHR 0x81],
       arg_device = ''auto'',
       arg_vad_filter = False,
       arg_vad_threshold = None,
       arg_vad_min_speech_duration_ms = None,
       arg_vad_max_speech_duration_s = None,
       arg_vad_min_silence_duration_ms = None,
       arg_device_index = Single 0,
       arg_compute_type = ''auto'',
       arg_model_directory = None,
       arg_print_colors = False,
       arg_live_transcribe = False \<rparr>"

text \<open>
  The ladder that numpy returns for the default temperature and increment.
\<close>

definition default_ladder :: "string list" where
  "default_ladder = [''0.0'', ''0.2'', ''0.4'', ''0.6000000000000001'', ''0.8'', ''1.0'']"

text \<open>
  An environment in which every collaborator returns: \<^verbatim>\<open>np.arange\<close> is given at
  the default arguments only, the language is passed through, every path exists, the
  engine returns the path it was given.
\<close>

definition quiet_env :: "(string, string) env" where
  "quiet_env =
     \<lparr> np_arange =
         (\<lambda>start stop step.
            if start = ''0'' \<and> stop = ''1.000001'' \<and> step = ''0.2'' then Inr default_ladder
            else Inl (ExternalError ''np.arange'')),
       ladder_stop = ''1.000001'',
       makedirs = (\<lambda>output_dir. Inr ()),
       from_language_to_iso_code = (\<lambda>language. Inr language),
       path_exists = (\<lambda>path. True),
       live_is_available = True,
       live_inference = (\<lambda>call. Inr ()),
       transcribe_inference = (\<lambda>audio_path call live. Inr audio_path),
       writer = (\<lambda>output_format output_dir result audio_path. Inr ()) \<rparr>"

text \<open>The same, but the engine raises on the file \<^verbatim>\<open>b.wav\<close>.\<close>

definition failing_env :: "(string, string) env" where
  "failing_env =
     quiet_env \<lparr> transcribe_inference :=
       (\<lambda>audio_path call live.
          if audio_path = ''b.wav'' then Inl (ExternalError ''b.wav'') else Inr audio_path) \<rparr>"

section \<open>Properties\<close>

subsection \<open>The coercers\<close>
























text \<open>
  Claim C10. A token given to \<^verbatim>\<open>--vad_filter\<close> is converted by \<^verbatim>\<open>bool\<close>: the
  conversion never raises, every non-empty token, \<^verbatim>\<open>False\<close> included, gives true and
  only the empty token gives false; a flag declared with \<^verbatim>\<open>str2bool\<close> gives false
  on \<^verbatim>\<open>False\<close> and raises on an unrecognised token. The converted value is the
  field \<^verbatim>\<open>vad_filter\<close> of the options.
\<close>

theorem vad_filter_conversion:
  "vad_filter_arg (Some s) = Inr (s \<noteq> [])
   \<and> vad_filter_arg (Some ''False'') = Inr True
   \<and> vad_filter_arg (Some []) = Inr False
   \<and> vad_filter_arg (Some ''maybe'') = Inr True
   \<and> str2bool_arg False (Some ''False'') = Inr False
   \<and> str2bool_arg False (Some ''maybe'') = Inl (ExpectedOneOf {''True'', ''False''} ''maybe'')
   \<and> vad_filter (make_options a ladder tokens) = arg_vad_filter a"
  by (simp add: vad_filter_arg_def py_bool_def str2bool_arg_def str2bool_def str2val_def
      make_options_def)

subsection \<open>Splitting, and the structure of a run\<close>



lemma bind_run_Inl: "bind_run (evs, Inl e) f = (evs, Inl e)"
  by (simp add: bind_run_def)

lemma bind_run_Inr: "bind_run (evs, Inr x) f = (evs @ fst (f x), snd (f x))"
  by (simp add: bind_run_def split: prod.splits)

lemma bind_run_lift: "bind_run (lift x) f = (case x of Inl e \<Rightarrow> ([], Inl e) | Inr v \<Rightarrow> f v)"
  by (simp add: bind_run_def lift_def split: sum.splits prod.splits)

lemma build_options_eq:
  "build_options env a =
     (case temperature_ladder env (arg_temperature a) (arg_temperature_increment_on_fallback a) of
        Inl e \<Rightarrow> ([], Inl e)
      | Inr ladder \<Rightarrow>
          (case from_language_to_iso_code env (arg_language a) of
             Inl e \<Rightarrow> ([], Inl e)
           | Inr iso_l \<Rightarrow>
               (case parse_suppress_tokens (arg_suppress_tokens a) of
                  Inl e \<Rightarrow>
                    (map Warn (fst (correct_language (arg_model_directory a) (arg_model a) iso_l)),
                     Inl e)
                | Inr tokens \<Rightarrow>
                    (map Warn (fst (correct_language (arg_model_directory a) (arg_model a) iso_l)),
                     Inr (snd (correct_language (arg_model_directory a) (arg_model a) iso_l),
                          make_options a ladder tokens)))))"
  by (simp add: build_options_def lift_def bind_run_def warn_def split: sum.splits)

lemma quiet_Warn: "list_all quiet (map Warn ws)"
  by (induction ws) (simp_all add: quiet_def)

lemma build_options_quiet: "list_all quiet (fst (build_options env a))"
  by (simp add: build_options_eq quiet_Warn split: sum.splits)

lemma check_options_quiet: "list_all quiet (fst (check_options env a l opts))"
  by (simp add: check_options_def bind_run_def lift_def emit_def quiet_def split: option.splits)

lemma main_eq:
  "main env a =
     (case makedirs env (arg_output_dir a) of
        Inl e \<Rightarrow> ([MakeDirs (arg_output_dir a)], Inl e)
      | Inr u \<Rightarrow>
          (case build_options env a of
             (evs1, Inl e) \<Rightarrow> (MakeDirs (arg_output_dir a) # evs1, Inl e)
           | (evs1, Inr (language, options)) \<Rightarrow>
               (case check_options env a language options of
                  (evs2, Inl e) \<Rightarrow> (MakeDirs (arg_output_dir a) # evs1 @ evs2, Inl e)
                | (evs2, Inr model_dir) \<Rightarrow>
                    (MakeDirs (arg_output_dir a) # evs1 @ evs2
                       @ fst (dispatch env a language options model_dir),
                     snd (dispatch env a language options model_dir)))))"
  by (simp add: main_def bind_run_def split: sum.splits prod.splits)

subsection \<open>The steps of \<^verbatim>\<open>main\<close>\<close>



lemma batch_quiet_free:
  "ev \<in> set (fst (batch env fmt od call ps)) \<Longrightarrow> is_engine_call ev \<or> is_writer_call ev"
  by (induction ps arbitrary: ev) (auto split: sum.splits prod.splits)

lemma batch_returns:
  assumes "\<forall>p\<in>set ps. \<exists>r. transcribe_inference env p call False = Inr r
             \<and> writer env fmt od r p = Inr ()"
  shows "batch env fmt od call ps = (concat (map (file_events env fmt od call) ps), Inr ())"
  using assms
  by (induction ps) (auto simp: file_events_def split: sum.splits prod.splits)

text \<open>
  Whatever the engine and the writer do, the events of the loop are the pairs of the
  first files, in order, followed at most by the engine call that raised.
\<close>

lemma batch_events_prefix:
  "\<exists>k extra. k \<le> length ps
     \<and> fst (batch env fmt od call ps) = concat (map (file_events env fmt od call) (take k ps)) @ extra
     \<and> (extra = [] \<or> (k < length ps \<and> extra = [TranscribeInference (ps ! k) call False]))"
proof (induction ps)
  case Nil
  show ?case by simp
next
  case (Cons p ps)
  show ?case
  proof (cases "transcribe_inference env p call False")
    case (Inl e)
    then have "fst (batch env fmt od call (p # ps))
        = concat (map (file_events env fmt od call) (take 0 (p # ps)))
          @ [TranscribeInference ((p # ps) ! 0) call False]"
      by simp
    then show ?thesis by (intro exI [of _ 0] exI [of _ "[TranscribeInference ((p # ps) ! 0) call False]"]) simp
  next
    case (Inr r)
    show ?thesis
    proof (cases "writer env fmt od r p")
      case (Inl e)
      with Inr have "fst (batch env fmt od call (p # ps))
        = concat (map (file_events env fmt od call) (take 1 (p # ps))) @ []"
        by (simp add: file_events_def)
      then show ?thesis by (intro exI [of _ 1] exI [of _ "[]"]) simp
    next
      case w: (Inr u)
      from Cons obtain k extra where k: "k \<le> length ps"
        "fst (batch env fmt od call ps) = concat (map (file_events env fmt od call) (take k ps)) @ extra"
        "extra = [] \<or> (k < length ps \<and> extra = [TranscribeInference (ps ! k) call False])"
        by blast
      obtain evs res where b: "batch env fmt od call ps = (evs, res)"
        by (cases "batch env fmt od call ps")
      from Inr w k b have "fst (batch env fmt od call (p # ps))
        = concat (map (file_events env fmt od call) (take (Suc k) (p # ps))) @ extra"
        by (simp add: file_events_def)
      with k(1,3) show ?thesis
        by (intro exI [of _ "Suc k"] exI [of _ extra]) auto
    qed
  qed
qed

lemma batch_english:
  "call_language call \<in> english \<Longrightarrow> list_all english_call (fst (batch env fmt od call ps))"
  by (induction ps) (auto simp: english_call_def split: sum.splits prod.splits)

lemma build_options_InrD:
  assumes "build_options env a = (evs, Inr (l, opts))"
  shows "\<exists>ladder iso_l tokens.
           temperature_ladder env (arg_temperature a) (arg_temperature_increment_on_fallback a) = Inr ladder
           \<and> from_language_to_iso_code env (arg_language a) = Inr iso_l
           \<and> parse_suppress_tokens (arg_suppress_tokens a) = Inr tokens
           \<and> evs = map Warn (fst (correct_language (arg_model_directory a) (arg_model a) iso_l))
           \<and> l = snd (correct_language (arg_model_directory a) (arg_model a) iso_l)
           \<and> opts = make_options a ladder tokens"
  using assms by (auto simp: build_options_eq split: sum.splits)


lemma main_cases:
  obtains (MakeDirsRaises) e where "makedirs env (arg_output_dir a) = Inl e"
      and "main env a = ([MakeDirs (arg_output_dir a)], Inl e)"
  | (BuildRaises) evs1 e where "makedirs env (arg_output_dir a) = Inr ()"
      and "build_options env a = (evs1, Inl e)"
      and "main env a = (MakeDirs (arg_output_dir a) # evs1, Inl e)"
  | (CheckRaises) evs1 l opts evs2 e where "makedirs env (arg_output_dir a) = Inr ()"
      and "build_options env a = (evs1, Inr (l, opts))"
      and "check_options env a l opts = (evs2, Inl e)"
      and "main env a = (MakeDirs (arg_output_dir a) # evs1 @ evs2, Inl e)"
  | (Dispatch) evs1 l opts evs2 md where "makedirs env (arg_output_dir a) = Inr ()"
      and "build_options env a = (evs1, Inr (l, opts))"
      and "check_options env a l opts = (evs2, Inr md)"
      and "main env a = (MakeDirs (arg_output_dir a) # evs1 @ evs2 @ fst (dispatch env a l opts md),
                         snd (dispatch env a l opts md))"
proof (cases "makedirs env (arg_output_dir a)")
  case (Inl e)
  then show ?thesis using MakeDirsRaises by (simp add: main_eq)
next
  case (Inr u)
  obtain evs1 r1 where b: "build_options env a = (evs1, r1)" by (cases "build_options env a")
  show ?thesis
  proof (cases r1)
    case (Inl e)
    with Inr b show ?thesis using BuildRaises by (simp add: main_eq)
  next
    case r1: (Inr lo)
    obtain l opts where lo: "lo = (l, opts)" by (cases lo)
    obtain evs2 r2 where c: "check_options env a l opts = (evs2, r2)"
      by (cases "check_options env a l opts")
    show ?thesis
    proof (cases r2)
      case (Inl e)
      with Inr b r1 lo c show ?thesis using CheckRaises by (simp add: main_eq)
    next
      case r2: (Inr md)
      with Inr b r1 lo c show ?thesis using Dispatch by (simp add: main_eq)
    qed
  qed
qed

lemma temperature_ladder_absent: "temperature_ladder env t0 None = Inr [t0]"
  by (simp add: temperature_ladder_def)

lemma temperature_ladder_present:
  "temperature_ladder env t0 (Some inc) = np_arange env t0 (ladder_stop env) inc"
  by (simp add: temperature_ladder_def)

lemma temperature_make_options: "temperature (make_options a ladder tokens) = ladder"
  by (simp add: make_options_def)







subsection \<open>The two modes\<close>


lemma quiet_not_stderr: "list_all quiet evs \<Longrightarrow> quiet (StderrWrite m)"
  by (simp add: quiet_def)





lemma dispatch_batch:
  "\<not> arg_live_transcribe a \<Longrightarrow> arg_audio a \<noteq> [] \<Longrightarrow>
     dispatch env a l opts md =
       batch env (arg_output_format a) (arg_output_dir a) (make_call a l opts md) (arg_audio a)"
  by (simp add: dispatch_def)

lemma filter_engine_file_events:
  "filter is_engine_call (concat (map (file_events env fmt od call) ps))
     = map (\<lambda>p. TranscribeInference p call False) ps"
  by (induction ps) (simp_all add: file_events_def)

lemma filter_writer_file_events:
  "filter is_writer_call (concat (map (file_events env fmt od call) ps))
     = map (\<lambda>p. WriterCall fmt od (projr (transcribe_inference env p call False)) p) ps"
  by (induction ps) (simp_all add: file_events_def)

lemma filter_quiet_nil: "list_all quiet evs \<Longrightarrow> filter is_engine_call evs = [] \<and> filter is_writer_call evs = []"
  by (induction evs) (auto simp: quiet_def)

text \<open>
  Claim C8, as amended. In batch mode (the output directory is made, the options are built and pass
  the checks, live mode is off) with at least one audio file, and when the calls of the
  engine and of the writer return, the events of \<^verbatim>\<open>main\<close> end with, for each path in
  the order given, the call of the engine on that path immediately followed by the call
  of the writer on its result; there is no other call of the engine or of the writer, so
  each is called once per path.
\<close>

theorem batch_mode_order:
  assumes "makedirs env (arg_output_dir a) = Inr ()"
    and "build_options env a = (evs1, Inr (l, opts))"
    and "check_options env a l opts = (evs2, Inr md)"
    and "\<not> arg_live_transcribe a"
    and "arg_audio a \<noteq> []"
    and "\<forall>p\<in>set (arg_audio a). \<exists>r.
           transcribe_inference env p (make_call a l opts md) False = Inr r
           \<and> writer env (arg_output_format a) (arg_output_dir a) r p = Inr ()"
  shows "main env a =
           (MakeDirs (arg_output_dir a) # evs1 @ evs2
              @ concat (map (file_events env (arg_output_format a) (arg_output_dir a)
                              (make_call a l opts md)) (arg_audio a)),
            Inr ())
     \<and> list_all quiet evs1 \<and> list_all quiet evs2
     \<and> filter is_engine_call (fst (main env a))
         = map (\<lambda>p. TranscribeInference p (make_call a l opts md) False) (arg_audio a)
     \<and> filter is_writer_call (fst (main env a))
         = map (\<lambda>p. WriterCall (arg_output_format a) (arg_output_dir a)
                  (projr (transcribe_inference env p (make_call a l opts md) False)) p) (arg_audio a)"
proof -
  have q: "list_all quiet evs1" "list_all quiet evs2"
    using build_options_quiet [of env a] check_options_quiet [of env a l opts] assms(2,3)
    by simp_all
  have m: "main env a =
           (MakeDirs (arg_output_dir a) # evs1 @ evs2
              @ concat (map (file_events env (arg_output_format a) (arg_output_dir a)
                              (make_call a l opts md)) (arg_audio a)),
            Inr ())"
    using assms(1,2,3) dispatch_batch [OF assms(4,5), of env l opts md] batch_returns [OF assms(6)]
    by (simp add: main_eq)
  show ?thesis
    using q filter_quiet_nil [OF q(1)] filter_quiet_nil [OF q(2)]
    by (simp add: m filter_engine_file_events filter_writer_file_events)
qed

theorem batch_mode_order_witness:
  "main quiet_env (default_args\<lparr>arg_audio := [''a.wav'', ''b.wav'']\<rparr>) =
     ([MakeDirs ''.'', Print detecting_language_message,
       TranscribeInference ''a.wav''
         (make_call (default_args\<lparr>arg_audio := [''a.wav'', ''b.wav'']\<rparr>) None
            (make_options (default_args\<lparr>arg_audio := [''a.wav'', ''b.wav'']\<rparr>)
               default_ladder [- 1]) ''small'') False,
       WriterCall ''all'' ''.'' ''a.wav'' ''a.wav'',
       TranscribeInference ''b.wav''
         (make_call (default_args\<lparr>arg_audio := [''a.wav'', ''b.wav'']\<rparr>) None
            (make_options (default_args\<lparr>arg_audio := [''a.wav'', ''b.wav'']\<rparr>)
               default_ladder [- 1]) ''small'') False,
       WriterCall ''all'' ''.'' ''b.wav'' ''b.wav''],
      Inr ())"
proof -
  let ?a = "default_args\<lparr>arg_audio := [''a.wav'', ''b.wav'']\<rparr>"
  let ?opts = "make_options ?a default_ladder [- 1]"
  have m: "makedirs quiet_env (arg_output_dir ?a) = Inr ()"
    by (simp add: quiet_env_def)
  have b: "build_options quiet_env ?a = ([], Inr (None, ?opts))"
    by code_simp
  have c: "check_options quiet_env ?a None ?opts = ([Print detecting_language_message], Inr ''small'')"
    by code_simp
  have l: "\<not> arg_live_transcribe ?a" "arg_audio ?a \<noteq> []"
    by (simp_all add: default_args_def)
  have r: "\<forall>p\<in>set (arg_audio ?a). \<exists>r.
           transcribe_inference quiet_env p (make_call ?a None ?opts ''small'') False = Inr r
           \<and> writer quiet_env (arg_output_format ?a) (arg_output_dir ?a) r p = Inr ()"
    by (simp add: quiet_env_def)
  have d: "arg_output_dir ?a = ''.''" "arg_output_format ?a = ''all''"
    "arg_audio ?a = [''a.wav'', ''b.wav'']"
    by (simp_all add: default_args_def)
  from batch_mode_order [OF m b c l r] show ?thesis
    by (simp add: d file_events_def quiet_env_def)
qed

text \<open>
  The claim as stated fails: when the engine raises on the second of three files, the
  engine has been called twice and the writer once; and when the checks before the
  dispatch raise, the engine is not called at all.
\<close>

theorem batch_mode_interrupted:
  "map is_engine_call (fst (main failing_env
       (default_args\<lparr>arg_audio := [''a.wav'', ''b.wav'', ''c.wav'']\<rparr>)))
     = [False, False, True, False, True]
   \<and> map is_writer_call (fst (main failing_env
       (default_args\<lparr>arg_audio := [''a.wav'', ''b.wav'', ''c.wav'']\<rparr>)))
     = [False, False, False, True, False]
   \<and> snd (main failing_env (default_args\<lparr>arg_audio := [''a.wav'', ''b.wav'', ''c.wav'']\<rparr>))
     = Inl (ExternalError ''b.wav'')
   \<and> map is_engine_call (fst (main quiet_env
       (default_args\<lparr>arg_audio := [''a.wav''], arg_print_colors := True, arg_verbose := False\<rparr>)))
     = [False]"
  by code_simp

subsection \<open>The language of English-only models\<close>

lemma quiet_english_call: "quiet ev \<Longrightarrow> english_call ev"
  by (cases ev) (simp_all add: quiet_def english_call_def)

lemma list_all_quiet_english: "list_all quiet evs \<Longrightarrow> list_all english_call evs"
  by (induction evs) (simp_all add: quiet_english_call)

lemma correct_language_english:
  "\<not> truthy md \<Longrightarrow> endswith m ''.en'' \<Longrightarrow> snd (correct_language md m l) \<in> english"
  by (simp add: correct_language_def english_def split: option.splits)

lemma dispatch_english:
  "l \<in> english \<Longrightarrow> list_all english_call (fst (dispatch env a l opts md))"
  using batch_english [of "make_call a l opts md" env "arg_output_format a" "arg_output_dir a" "arg_audio a"]
  by (simp add: dispatch_def emit_def english_call_def make_call_def)

text \<open>
  Claim C4. When the model name ends in \<^verbatim>\<open>.en\<close> and no model directory is given,
  every call of the engine made by \<^verbatim>\<open>main\<close>, live or batch, receives a language of
  the set \<^verbatim>\<open>{"en", "English"}\<close>, whatever the language argument was, absent included;
  the corrected language is \<^verbatim>\<open>en\<close> unless the resolved language was \<^verbatim>\<open>English\<close>.
\<close>

theorem english_only_model_language:
  assumes "\<not> truthy (arg_model_directory a)" and "endswith (arg_model a) ''.en''"
  shows "list_all english_call (fst (main env a))
     \<and> snd (correct_language (arg_model_directory a) (arg_model a) l) \<in> english
     \<and> (l \<noteq> Some ''English'' \<longrightarrow>
          snd (correct_language (arg_model_directory a) (arg_model a) l) = Some ''en'')"
proof -
  have c: "snd (correct_language (arg_model_directory a) (arg_model a) l) \<in> english
     \<and> (l \<noteq> Some ''English'' \<longrightarrow>
          snd (correct_language (arg_model_directory a) (arg_model a) l) = Some ''en'')"
    using assms by (auto simp: correct_language_def english_def split: option.splits)
  have "list_all english_call (fst (main env a))"
  proof (cases rule: main_cases [of env a])
    case (MakeDirsRaises e)
    then show ?thesis by (simp add: english_call_def)
  next
    case (BuildRaises evs1 e)
    then show ?thesis
      using list_all_quiet_english [OF build_options_quiet [of env a]]
      by (simp add: english_call_def)
  next
    case (CheckRaises evs1 l' opts evs2 e)
    then show ?thesis
      using list_all_quiet_english [OF build_options_quiet [of env a]]
        list_all_quiet_english [OF check_options_quiet [of env a l' opts]]
      by (simp add: english_call_def)
  next
    case (Dispatch evs1 l' opts evs2 md)
    from build_options_InrD [OF Dispatch(2)] assms have "l' \<in> english"
      by (auto simp: correct_language_english)
    from dispatch_english [OF this, of env a opts md] Dispatch show ?thesis
      using list_all_quiet_english [OF build_options_quiet [of env a]]
        list_all_quiet_english [OF check_options_quiet [of env a l' opts]]
      by (simp add: english_call_def)
  qed
  with c show ?thesis by blast
qed

theorem english_only_model_language_witness:
  "map engine_language (fst (main quiet_env
       (default_args\<lparr>arg_audio := [''a.wav''], arg_model := ''small.en''\<rparr>)))
     = [None, Some (Some ''en''), None]
   \<and> list_all english_call (fst (main quiet_env
       (default_args\<lparr>arg_audio := [''a.wav''], arg_model := ''small.en''\<rparr>)))
   \<and> snd (correct_language None ''small.en'' None) = Some ''en''"
proof -
  let ?a = "default_args\<lparr>arg_audio := [''a.wav''], arg_model := ''small.en''\<rparr>"
  have h: "\<not> truthy (arg_model_directory ?a)" "endswith (arg_model ?a) ''.en''"
    by (simp_all add: default_args_def truthy_def endswith_def)
  have m: "map engine_language (fst (main quiet_env ?a)) = [None, Some (Some ''en''), None]"
    by code_simp
  have d: "arg_model_directory ?a = None" "arg_model ?a = ''small.en''"
    by (simp_all add: default_args_def)
  from english_only_model_language [OF h, of quiet_env None] m d show ?thesis
    by simp
qed

text \<open>
  Claim C3, as amended. The warning is emitted exactly when no model directory is given,
  the model name ends in \<^verbatim>\<open>.en\<close> and the resolved language is neither absent nor
  English. The language is changed exactly when no model directory is given, the model
  name ends in \<^verbatim>\<open>.en\<close> and the resolved language is not English, absent included, and
  it is then \<^verbatim>\<open>en\<close>. With a model directory nothing is changed and nothing is emitted.
\<close>

theorem language_correction:
  "(fst (correct_language md m l) \<noteq> [] \<longleftrightarrow>
      \<not> truthy md \<and> endswith m ''.en'' \<and> l \<noteq> None \<and> l \<notin> english)
   \<and> (snd (correct_language md m l) \<noteq> l \<longleftrightarrow>
      \<not> truthy md \<and> endswith m ''.en'' \<and> l \<notin> english)
   \<and> (snd (correct_language md m l) \<noteq> l \<longrightarrow> snd (correct_language md m l) = Some ''en'')
   \<and> (truthy md \<longrightarrow> correct_language md m l = ([], l))
   \<and> correct_language None ''small.en'' (Some ''fr'')
        = ([english_only_warning ''small.en'' ''fr''], Some ''en'')
   \<and> correct_language (Some ''dir'') ''small.en'' (Some ''fr'') = ([], Some ''fr'')"
proof -
  have a: "fst (correct_language md m l) \<noteq> [] \<longleftrightarrow>
      \<not> truthy md \<and> endswith m ''.en'' \<and> l \<noteq> None \<and> l \<notin> english"
    by (auto simp: correct_language_def split: option.splits)
  have b: "snd (correct_language md m l) \<noteq> l \<longleftrightarrow>
      \<not> truthy md \<and> endswith m ''.en'' \<and> l \<notin> english"
    by (auto simp: correct_language_def english_def split: option.splits)
  have c: "snd (correct_language md m l) \<noteq> l \<longrightarrow> snd (correct_language md m l) = Some ''en''"
    by (auto simp: correct_language_def split: option.splits)
  have d: "truthy md \<longrightarrow> correct_language md m l = ([], l)"
    by (simp add: correct_language_def)
  have e: "correct_language None ''small.en'' (Some ''fr'')
        = ([english_only_warning ''small.en'' ''fr''], Some ''en'')"
    by (simp add: correct_language_def truthy_def endswith_def english_def)
  have f: "correct_language (Some ''dir'') ''small.en'' (Some ''fr'') = ([], Some ''fr'')"
    by (simp add: correct_language_def truthy_def)
  show ?thesis
    by (rule conjI [OF a conjI [OF b conjI [OF c conjI [OF d conjI [OF e f]]]]])
qed

theorem language_correction_witness:
  "truthy (Some ''dir'') \<and> correct_language (Some ''dir'') ''small.en'' (Some ''fr'') = ([], Some ''fr'')
   \<and> snd (correct_language None ''small.en'' (Some ''fr'')) = Some ''en''
   \<and> fst (correct_language None ''small.en'' (Some ''fr'')) \<noteq> []"
proof -
  have t: "truthy (Some ''dir'')" "\<not> truthy None" "endswith ''small.en'' ''.en''"
    "Some ''fr'' \<notin> english" "Some ''fr'' \<noteq> None"
    by (simp_all add: truthy_def endswith_def english_def)
  note dir = language_correction [of "Some ''dir''" "''small.en''" "Some ''fr''"]
  note nodir = language_correction [of None "''small.en''" "Some ''fr''"]
  have kept: "correct_language (Some ''dir'') ''small.en'' (Some ''fr'') = ([], Some ''fr'')"
    using dir [THEN conjunct2, THEN conjunct2, THEN conjunct2, THEN conjunct1] t(1) by (rule mp)
  have changed: "snd (correct_language None ''small.en'' (Some ''fr'')) \<noteq> Some ''fr''"
    using nodir [THEN conjunct2, THEN conjunct1] t(2,3,4) by (rule_tac iffD2) simp_all
  have forced: "snd (correct_language None ''small.en'' (Some ''fr'')) = Some ''en''"
    using nodir [THEN conjunct2, THEN conjunct2, THEN conjunct1] changed by (rule mp)
  have warned: "fst (correct_language None ''small.en'' (Some ''fr'')) \<noteq> []"
    using nodir [THEN conjunct1] t(2,3,4,5) by (rule_tac iffD2) simp_all
  show ?thesis
    by (rule conjI [OF t(1) conjI [OF kept conjI [OF forced warned]]])
qed

text \<open>
  The claim as stated fails: with an absent language the correction is applied, without
  a warning.
\<close>

theorem language_correction_absent:
  "correct_language None ''small.en'' None = ([], Some ''en'')"
  by (simp add: correct_language_def truthy_def endswith_def english_def)

subsection \<open>The suppressed tokens\<close>


lemma str_split_no_sep: "t \<in> set (str_split sep s) \<Longrightarrow> sep \<notin> set t"
  by (induction s arbitrary: t) (auto split: if_splits list.splits)




end
